theory Spec2Isabelle
  imports Complex_Main
begin

section \<open>Shared data model\<close>

text \<open>
  Python exceptions, as far as the two scripts tell them apart. \<open>KeyboardInterrupt\<close> and
  \<open>SystemExit\<close> derive from \<open>BaseException\<close> only; every other constructor is an
  instance of \<open>Exception\<close>. \<open>OtherError\<close> stands for any \<open>Exception\<close> that is neither
  an \<open>EOFError\<close> nor a \<open>ValueError\<close>; its argument is \<open>str(e)\<close>.
\<close>

datatype py_exception =
    EOFError
  | KeyboardInterrupt
  | SystemExit nat
  | ValueError string
  | OtherError string

fun is_Exception :: "py_exception \<Rightarrow> bool" where
  "is_Exception KeyboardInterrupt = False"
| "is_Exception (SystemExit _) = False"
| "is_Exception _ = True"

fun exc_str :: "py_exception \<Rightarrow> string" where
  "exc_str EOFError = []"
| "exc_str KeyboardInterrupt = []"
| "exc_str (SystemExit n) = []"
| "exc_str (ValueError m) = m"
| "exc_str (OtherError m) = m"

text \<open>
  What a run leaves behind for an observer: the calls of \<open>print\<close>, the prompt that
  \<open>input\<close> writes, the tokens written without a newline, the stack trace of
  \<open>traceback.print_exc\<close>, and the calls of \<open>query_engine.query\<close>, the one place where
  the query script reaches the embedding model and the language model. The two lines that
  format a float (elapsed time, similarity score) keep the value apart from the text.
  Strings are sequences of code points below 256.
\<close>

datatype event =
    Print string
  | Prompt string
  | Token string
  | ResponseTime
  | ScoreLine real
  | QueryCall string
  | Traceback py_exception

record document =
  doc_id :: string
  doc_text :: string
  doc_metadata :: "(string \<times> string) list"

record entry =
  entry_id :: string
  entry_vector :: "real list"
  entry_text :: string
  entry_metadata :: "(string \<times> string) list"

record data_file =
  file_name :: string
  file_text :: string
  readable :: bool

text \<open>
  The persistence directory: the collections of the database by name, and whatever else
  lies in the directory.
\<close>

record persist =
  collections :: "string \<rightharpoonup> entry list"
  other_files :: "string list"

text \<open>
  The part of the world the scripts touch: \<open>DATA_DIR\<close> (\<open>None\<close> when the path does not
  exist, otherwise its listing), \<open>PERSIST_DIR\<close> (likewise) and the output so far.
\<close>

record world =
  data_dir :: "data_file list option"
  persist_dir :: "persist option"
  out :: "event list"

definition PERSIST_DIR :: string where
  "PERSIST_DIR = ''./chroma_db''"

definition COLLECTION_NAME :: string where
  "COLLECTION_NAME = ''survival_docs''"

definition DATA_DIR :: string where
  "DATA_DIR = ''./survival_docs''"

definition LLM_MODEL_NAME :: string where
  "LLM_MODEL_NAME = ''qwen3:8b-q4_K_M''"

definition EMBEDDING_MODEL_NAME :: string where
  "EMBEDDING_MODEL_NAME = ''nomic-embed-text:137m-v1.5-fp16''"

definition print :: "string \<Rightarrow> world \<Rightarrow> world" where
  "print s w = w\<lparr>out := out w @ [Print s]\<rparr>"

definition quote :: "string \<Rightarrow> string" where
  "quote s = [CHR 0x27] @ s @ [CHR 0x27]"

definition nl :: string where
  "nl = [CHR 0x0A]"

fun digit :: "nat \<Rightarrow> char" where
  "digit n = char_of (48 + n)"

fun show_nat :: "nat \<Rightarrow> string" where
  "show_nat n = (if n < 10 then [digit n] else show_nat (n div 10) @ [digit (n mod 10)])"

declare show_nat.simps [simp del]

text \<open>
  The exit status a shell sees: 0 when \<open>main\<close> returns, the argument of \<open>sys.exit\<close> when
  a \<open>SystemExit\<close> reaches the top, 130 when a \<open>KeyboardInterrupt\<close> does (the interpreter
  ends itself with the interrupt signal), 1 for any other uncaught exception.
\<close>

fun exit_code :: "py_exception + unit \<Rightarrow> nat" where
  "exit_code (Inr _) = 0"
| "exit_code (Inl (SystemExit n)) = n"
| "exit_code (Inl KeyboardInterrupt) = 130"
| "exit_code (Inl _) = 1"

text \<open>Both scripts: the constructors of the two model clients make no request.\<close>

definition setup_llm_and_embed_models :: "world \<Rightarrow> world" where
  "setup_llm_and_embed_models w =
     print ''LLM and embedding models set.''
       (print (''Setting embedding model: '' @ EMBEDDING_MODEL_NAME)
         (print (''Setting LLM model: '' @ LLM_MODEL_NAME) w))"

section \<open>rag_ingestion.py\<close>

definition rmtree :: "world \<Rightarrow> world" where
  "rmtree w = w\<lparr>persist_dir := None\<rparr>"

definition makedirs :: "world \<Rightarrow> world" where
  "makedirs w =
     (case persist_dir w of
        None \<Rightarrow> w\<lparr>persist_dir := Some \<lparr>collections = Map.empty, other_files = []\<rparr>\<rparr>
      | Some _ \<Rightarrow> w)"

text \<open>
  \<open>db.get_or_create_collection\<close>: the collection is left as it is when it exists and
  created empty otherwise. The client is opened on a directory that \<open>makedirs\<close> has just
  ensured; on a missing directory the client creates it.
\<close>

definition get_or_create_collection :: "string \<Rightarrow> world \<Rightarrow> world" where
  "get_or_create_collection name w =
     (let p = (case persist_dir w of
                 None \<Rightarrow> \<lparr>collections = Map.empty, other_files = []\<rparr>
               | Some p \<Rightarrow> p)
      in case collections p name of
           None \<Rightarrow> w\<lparr>persist_dir := Some (p\<lparr>collections := (collections p)(name \<mapsto> [])\<rparr>)\<rparr>
         | Some _ \<Rightarrow> w\<lparr>persist_dir := Some p\<rparr>)"

text \<open>The vector store handle is the name of the collection it wraps.\<close>

definition initialize_vector_store :: "world \<Rightarrow> string \<times> world" where
  "initialize_vector_store w =
     (let w1 = (if persist_dir w \<noteq> None
                then rmtree (print (''Wiping previous database at '' @ PERSIST_DIR) w)
                else w);
          w2 = makedirs w1;
          w3 = print (''Initializing ChromaDB client at '' @ PERSIST_DIR @ ''...'') w2;
          w4 = print (''Getting or creating Chroma collection: '' @ COLLECTION_NAME) w3;
          w5 = get_or_create_collection COLLECTION_NAME w4;
          w6 = print ''ChromaDB vector store initialized.'' w5
      in (COLLECTION_NAME, w6))"

text \<open>
  \<open>SimpleDirectoryReader(DATA_DIR).load_data()\<close> is a library call: the parameter
  \<open>reader\<close> maps the listing of the directory to the documents, or to the exception raised.
\<close>

type_synonym reader = "data_file list \<Rightarrow> py_exception + document list"

definition load_documents :: "reader \<Rightarrow> world \<Rightarrow> (py_exception + document list) \<times> world" where
  "load_documents reader w =
     (let missing_or_empty =
            (Inl (SystemExit 1),
             print ''Please create it and add your documents.''
               (print (''ERROR: Data directory '' @ quote DATA_DIR @ '' is missing or empty.'') w))
      in case data_dir w of
           None \<Rightarrow> missing_or_empty
         | Some [] \<Rightarrow> missing_or_empty
         | Some (f # fs) \<Rightarrow>
             let w1 = print (''Loading documents from '' @ DATA_DIR @ ''...'') w
             in (case reader (f # fs) of
                  Inr documents \<Rightarrow>
                    if documents = [] then
                      (Inl (SystemExit 1),
                       print (''No documents found in '' @ DATA_DIR
                                @ ''. Please add some text files.'') w1)
                    else
                      (Inr documents,
                       print (''Loaded '' @ show_nat (length documents) @ '' document(s).'') w1)
                | Inl (ValueError m) \<Rightarrow>
                    (Inl (SystemExit 1),
                     print (''Please ensure '' @ quote DATA_DIR
                              @ '' exists and contains readable files.'')
                       (print (''Error loading documents: '' @ m) w1))
                | Inl e \<Rightarrow> (Inl e, w1)))"

text \<open>
  \<open>VectorStoreIndex.from_documents\<close> is a library call: the parameter \<open>indexer\<close> maps the
  documents and the present content of the collection to its new content, and to the
  exception (if any) that ended the call; what was written before an exception stays.
\<close>

type_synonym indexer = "document list \<Rightarrow> entry list \<Rightarrow> py_exception option \<times> entry list"

definition ingest_documents ::
  "indexer \<Rightarrow> document list \<Rightarrow> string \<Rightarrow> world \<Rightarrow> (py_exception + unit) \<times> world" where
  "ingest_documents indexer documents vector_store w =
     (let w1 = print ''Creating index and ingesting documents into ChromaDB...'' w
      in case persist_dir w1 of
           None \<Rightarrow> (Inl (OtherError ''collection does not exist''), w1)
         | Some p \<Rightarrow>
             (case collections p vector_store of
                None \<Rightarrow> (Inl (OtherError ''collection does not exist''), w1)
              | Some old \<Rightarrow>
                  let (err, new) = indexer documents old;
                      w2 = w1\<lparr>persist_dir :=
                              Some (p\<lparr>collections := (collections p)(vector_store \<mapsto> new)\<rparr>)\<rparr>
                  in (case err of
                        Some e \<Rightarrow> (Inl e, w2)
                      | None \<Rightarrow>
                          (Inr (),
                           print ''Index created and documents ingested successfully.'' w2))))"

definition ingestion_main :: "reader \<Rightarrow> indexer \<Rightarrow> world \<Rightarrow> (py_exception + unit) \<times> world" where
  "ingestion_main reader indexer w =
     (let w1 = print ''--- Starting RAG Ingestion Process ---'' w;
          w2 = setup_llm_and_embed_models w1;
          (vector_store, w3) = initialize_vector_store w2
      in case load_documents reader w3 of
           (Inl e, w4) \<Rightarrow> (Inl e, w4)
         | (Inr documents, w4) \<Rightarrow>
             (case ingest_documents indexer documents vector_store w4 of
                (Inl e, w5) \<Rightarrow> (Inl e, w5)
              | (Inr _, w5) \<Rightarrow>
                  (Inr (),
                   print ''You can now run query_rag.py to chat with your documents.''
                     (print (''Data ingested into ChromaDB at '' @ PERSIST_DIR
                               @ '' using collection '' @ quote COLLECTION_NAME @ ''.'')
                        (print ''--- RAG Ingestion Process Complete ---'' w5)))))"

subsection \<open>The library calls of the ingestion, as the specification describes them\<close>

text \<open>
  Modelled from the spec: \<open>SimpleDirectoryReader.load_data\<close> is a library function
  whose code is not part of the repository. The specification's Document Loader
  "reads all files from a designated source directory into a sequence of text documents
  (each carrying a file-name attribute)", loading "every readable file in the directory".
\<close>

definition to_document :: "data_file \<Rightarrow> document" where
  "to_document f =
     \<lparr>doc_id = file_name f, doc_text = file_text f,
      doc_metadata = [(''file_name'', file_name f)]\<rparr>"

definition spec_reader :: reader where
  "spec_reader files = Inr (map to_document (filter readable files))"

text \<open>
  Modelled from the spec: \<open>VectorStoreIndex.from_documents\<close> is a library function
  whose code is not part of the repository. The specification has it "embed and persist each
  Document as a Vector Store Entry", where "one Document yields exactly one Vector Store
  Entry (whole-document embedding, no chunking)"; \<open>emb\<close> is the Embedding Provider.
\<close>

definition to_entry :: "(string \<Rightarrow> real list) \<Rightarrow> document \<Rightarrow> entry" where
  "to_entry emb d =
     \<lparr>entry_id = doc_id d, entry_vector = emb (doc_text d),
      entry_text = doc_text d, entry_metadata = doc_metadata d\<rparr>"

definition spec_indexer :: "(string \<Rightarrow> real list) \<Rightarrow> indexer" where
  "spec_indexer emb documents old = (None, old @ map (to_entry emb) documents)"

subsection \<open>Reading the persisted state\<close>

definition stored :: "world \<Rightarrow> string \<Rightarrow> entry list option" where
  "stored w name = (case persist_dir w of None \<Rightarrow> None | Some p \<Rightarrow> collections p name)"

text \<open>A persistence directory that holds the configured collection and nothing else.\<close>

definition fresh_persist :: "entry list \<Rightarrow> persist" where
  "fresh_persist es = \<lparr>collections = [COLLECTION_NAME \<mapsto> es], other_files = []\<rparr>"

subsection \<open>Concrete inputs\<close>

definition length_embed :: "string \<Rightarrow> real list" where
  "length_embed s = [real (length s)]"

definition water_entry :: entry where
  "water_entry =
     \<lparr>entry_id = ''water.txt'', entry_vector = [11], entry_text = ''Boil water.'',
      entry_metadata = [(''file_name'', ''water.txt'')]\<rparr>"

definition fire_file :: data_file where
  "fire_file =
     \<lparr>file_name = ''fire.txt'',
      file_text = ''Rubbing sticks together generates heat via friction.'',
      readable = True\<rparr>"

definition old_persist :: persist where
  "old_persist =
     \<lparr>collections = [COLLECTION_NAME \<mapsto> [water_entry], ''notes'' \<mapsto> [water_entry]],
      other_files = [''README.txt'']\<rparr>"

text \<open>A populated store and no source directory.\<close>

definition world_no_data :: world where
  "world_no_data = \<lparr>data_dir = None, persist_dir = Some old_persist, out = []\<rparr>"

text \<open>A populated store and an empty source directory.\<close>

definition world_empty_data :: world where
  "world_empty_data = \<lparr>data_dir = Some [], persist_dir = Some old_persist, out = []\<rparr>"

text \<open>A populated store and a source directory with one file.\<close>

definition world_fire :: world where
  "world_fire = \<lparr>data_dir = Some [fire_file], persist_dir = Some old_persist, out = []\<rparr>"

text \<open>No store yet, and a source directory with one file.\<close>

definition world_first_run :: world where
  "world_first_run = \<lparr>data_dir = Some [fire_file], persist_dir = None, out = []\<rparr>"

section \<open>query_rag.py\<close>

subsection \<open>Strings\<close>

text \<open>\<open>str.lower\<close> and \<open>str.strip\<close> on code points below 256.\<close>

definition lower_char :: "char \<Rightarrow> char" where
  "lower_char c =
     (let n = (of_char c :: nat)
      in if (65 \<le> n \<and> n \<le> 90) \<or> (192 \<le> n \<and> n \<le> 222 \<and> n \<noteq> 215)
         then char_of (n + 32) else c)"

definition lower :: "string \<Rightarrow> string" where
  "lower s = map lower_char s"

definition is_space :: "char \<Rightarrow> bool" where
  "is_space c =
     (let n = (of_char c :: nat)
      in (9 \<le> n \<and> n \<le> 13) \<or> (28 \<le> n \<and> n \<le> 32) \<or> n = 133 \<or> n = 160)"

definition strip :: "string \<Rightarrow> string" where
  "strip s = rev (dropWhile is_space (rev (dropWhile is_space s)))"

subsection \<open>The response of a query\<close>

record source_node =
  node_id :: string
  score :: "real option"
  node_metadata :: "(string \<times> string) list"
  node_text :: string

text \<open>
  The object \<open>query_engine.query\<close> returns. \<open>response_gen\<close> is \<open>None\<close> when the object
  has no such attribute; otherwise it is the tokens the generator yields and the
  exception (if any) it raises after them. \<open>response\<close> is \<open>None\<close> when the attribute is
  missing or \<open>None\<close>.
\<close>

record response_obj =
  response_gen :: "(string list \<times> py_exception option) option"
  response :: "string option"
  source_nodes :: "source_node list"

type_synonym query_engine = "string \<Rightarrow> py_exception + response_obj"

subsection \<open>Opening the store\<close>

text \<open>
  \<open>db.get_collection\<close> raises when the collection does not exist; the exception is an
  \<open>Exception\<close>, and its text is the library's.
\<close>

definition get_collection :: "string \<Rightarrow> persist \<Rightarrow> py_exception + entry list" where
  "get_collection name p =
     (case collections p name of
        None \<Rightarrow> Inl (ValueError (''Collection '' @ name @ '' does not exist.''))
      | Some es \<Rightarrow> Inr es)"

text \<open>The index is the content of the collection it was loaded from.\<close>

definition load_vector_store_and_index :: "world \<Rightarrow> (py_exception + entry list) \<times> world" where
  "load_vector_store_and_index w =
     (case persist_dir w of
        None \<Rightarrow>
          (Inl (SystemExit 1),
           print (''Please run the rag_ingestion.py script first to create and populate ''
                    @ ''the database.'')
             (print (''ERROR: ChromaDB persistence directory '' @ quote PERSIST_DIR
                       @ '' not found.'') w))
      | Some db \<Rightarrow>
          let w1 = print (''Loading ChromaDB client from '' @ PERSIST_DIR @ ''...'') w;
              w2 = print (''Getting Chroma collection: '' @ COLLECTION_NAME) w1
          in (case get_collection COLLECTION_NAME db of
               Inl e \<Rightarrow>
                 if is_Exception e then
                   (Inl (SystemExit 1),
                    print ''Ensure the collection was created by rag_ingestion.py.''
                      (print (''Error getting collection '' @ quote COLLECTION_NAME
                                @ '': '' @ exc_str e) w2))
                 else (Inl e, w2)
             | Inr chroma_collection \<Rightarrow>
                 (Inr chroma_collection,
                  print ''Index loaded successfully from ChromaDB.''
                    (print ''Loading index from vector store...'' w2))))"

subsection \<open>The query engine, as the specification describes it\<close>

text \<open>
  The external collaborators of a query: the Embedding Provider, the similarity of two
  vectors, and the Language Model Provider, which answers a prompt with a sequence of
  tokens, raises before the first token, or raises after some tokens.
\<close>

record providers =
  embed_text :: "string \<Rightarrow> real list"
  similarity :: "real list \<Rightarrow> real list \<Rightarrow> real"
  generate :: "string \<Rightarrow> py_exception + (string list \<times> py_exception option)"

definition SYSTEM_PROMPT_RAG :: "string \<Rightarrow> string \<Rightarrow> string" where
  "SYSTEM_PROMPT_RAG context_str query_str =
     nl @ ''You are an expert offline survival assistant. Use the provided context information''
     @ nl @ ''to answer the user'' @ [CHR 0x27] @ ''s question accurately and concisely based on the context.''
     @ nl @ ''Prioritize the information provided in the context above all else.''
     @ nl @ nl @ ''# Context:''
     @ nl @ context_str
     @ nl @ nl @ ''# User Question: '' @ query_str
     @ nl @ nl @ ''# Answer:'' @ nl"

definition to_node :: "providers \<Rightarrow> string \<Rightarrow> entry \<Rightarrow> source_node" where
  "to_node P q e =
     \<lparr>node_id = entry_id e,
      score = Some (similarity P (embed_text P q) (entry_vector e)),
      node_metadata = entry_metadata e,
      node_text = entry_text e\<rparr>"

definition score_of :: "source_node \<Rightarrow> real" where
  "score_of n = (case score n of None \<Rightarrow> 0 | Some x \<Rightarrow> x)"

definition descending :: "source_node \<Rightarrow> real" where
  "descending n = - score_of n"

text \<open>
  Modelled from the spec: the retrieval of the query engine is library code that is not
  part of the repository. The specification has it "embed [the query], retrieve the k
  nearest Vector Store Entries by similarity, rank descending by score", top-k retrieval
  being "returning the k entries with highest similarity score to a query vector"; ties
  keep the order of the collection.
\<close>

definition retrieve :: "providers \<Rightarrow> nat \<Rightarrow> entry list \<Rightarrow> string \<Rightarrow> source_node list" where
  "retrieve P k index q = take k (sort_key descending (map (to_node P q) index))"

fun join_texts :: "string list \<Rightarrow> string" where
  "join_texts [] = []"
| "join_texts [t] = t"
| "join_texts (t # ts) = t @ nl @ nl @ join_texts ts"

text \<open>
  Modelled from the spec: \<open>index.as_query_engine\<close> and the \<open>query\<close> method of its
  result are library code that is not part of the repository. The specification's Query
  Engine retrieves the top-k passages, substitutes them and the query into the template,
  sends the prompt to the model and returns the answer (a token stream when streaming is
  requested) with the retrieved source nodes.
\<close>

definition as_query_engine ::
  "providers \<Rightarrow> entry list \<Rightarrow> nat \<Rightarrow> (string \<Rightarrow> string \<Rightarrow> string) \<Rightarrow> bool \<Rightarrow> query_engine" where
  "as_query_engine P index similarity_top_k text_qa_template streaming q =
     (let nodes = retrieve P similarity_top_k index q;
          prompt = text_qa_template (join_texts (map node_text nodes)) q
      in case generate P prompt of
           Inl e \<Rightarrow> Inl e
         | Inr (tokens, err) \<Rightarrow>
             if streaming then
               Inr \<lparr>response_gen = Some (tokens, err), response = None, source_nodes = nodes\<rparr>
             else
               (case err of
                  Some e \<Rightarrow> Inl e
                | None \<Rightarrow>
                    Inr \<lparr>response_gen = None, response = Some (concat tokens),
                         source_nodes = nodes\<rparr>))"

definition create_query_engine :: "providers \<Rightarrow> entry list \<Rightarrow> world \<Rightarrow> query_engine \<times> world" where
  "create_query_engine P index w =
     (let w1 = print ''Creating query engine (with streaming enabled)...'' w;
          query_engine = as_query_engine P index 3 SYSTEM_PROMPT_RAG True
      in (query_engine, print ''Query engine created.'' w1))"

subsection \<open>The chat loop\<close>

text \<open>
  What \<open>input\<close> delivers: a line, or a \<open>KeyboardInterrupt\<close>. The standard input is a
  finite list of these; when it is exhausted \<open>input\<close> raises \<open>EOFError\<close>.
\<close>

datatype input_event = Line string | Interrupt

text \<open>How the body of the \<open>try\<close> statement ends.\<close>

datatype body_end = Normal | BreakStmt | Raise py_exception

text \<open>How one pass through the \<open>while True\<close> loop ends.\<close>

datatype loop_ctl = Continue | Break | Propagate py_exception

text \<open>Lines 96 to 107: the answer, streamed or whole.\<close>

definition print_response :: "response_obj \<Rightarrow> event list \<times> py_exception option" where
  "print_response response_obj =
     (case response_gen response_obj of
        Some (tokens, err) \<Rightarrow>
          (case err of
             Some e \<Rightarrow> (map Token tokens, Some e)
           | None \<Rightarrow> (map Token tokens @ [Print []], None))
      | None \<Rightarrow>
          ([Print ''Streaming response generator not found. Displaying full response.'',
            (case response response_obj of
               None \<Rightarrow> Print ''No response text available.''
             | Some r \<Rightarrow>
                 if r \<noteq> [] then Print (strip r) else Print ''No response text available.'')],
           None))"

definition file_name_of :: "source_node \<Rightarrow> string" where
  "file_name_of node =
     (if node_metadata node \<noteq> [] then
        (case map_of (node_metadata node) ''file_name'' of
           None \<Rightarrow> ''N/A'' | Some v \<Rightarrow> v)
      else ''N/A'')"

text \<open>
  Lines 116 to 121, from index \<open>i\<close> on. Formatting a score of \<open>None\<close> with \<open>.4f\<close> raises
  a \<open>TypeError\<close>.
\<close>

fun print_sources :: "nat \<Rightarrow> source_node list \<Rightarrow> event list \<times> py_exception option" where
  "print_sources i [] = ([], None)"
| "print_sources i (node # nodes) =
     (let head = [Print (''  Source '' @ show_nat (i + 1) @ '':''),
                  Print (''    ID: '' @ node_id node)]
      in case score node of
           None \<Rightarrow>
             (head, Some (OtherError ''unsupported format string passed to NoneType.__format__''))
         | Some x \<Rightarrow>
             (case print_sources (i + 1) nodes of
                (rest, err) \<Rightarrow>
                  (head @ [ScoreLine x, Print (''    File: '' @ file_name_of node)] @ rest, err)))"

text \<open>Lines 87 to 126: the body of the \<open>try\<close> statement; \<open>None\<close> is the end of the input.\<close>

definition chat_body :: "query_engine \<Rightarrow> input_event option \<Rightarrow> event list \<times> body_end" where
  "chat_body query_engine inp =
     (case inp of
        None \<Rightarrow> ([Prompt ''You: ''], Raise EOFError)
      | Some Interrupt \<Rightarrow> ([Prompt ''You: ''], Raise KeyboardInterrupt)
      | Some (Line user_input) \<Rightarrow>
          if lower user_input \<in> set [''quit'', ''exit''] then ([Prompt ''You: ''], BreakStmt)
          else if strip user_input \<noteq> [] then
            (let evs0 = [Prompt ''You: '',
                         Print (nl @ ''Querying with: '' @ quote user_input @ ''...''),
                         QueryCall user_input]
             in case query_engine user_input of
                  Inl e \<Rightarrow> (evs0, Raise e)
                | Inr response_obj \<Rightarrow>
                    (case print_response response_obj of
                       (evs1, Some e) \<Rightarrow>
                         (evs0 @ [Print (nl @ ''--- Assistant Response ---'')] @ evs1, Raise e)
                     | (evs1, None) \<Rightarrow>
                         (let evs2 = evs0 @ [Print (nl @ ''--- Assistant Response ---'')] @ evs1
                                     @ [Print ''-------------------------'', ResponseTime,
                                        Print (nl @ ''--- Retrieved Sources ---'')]
                          in if source_nodes response_obj \<noteq> [] then
                               (case print_sources 0 (source_nodes response_obj) of
                                  (evs3, Some e) \<Rightarrow> (evs2 @ evs3, Raise e)
                                | (evs3, None) \<Rightarrow>
                                    (evs2 @ evs3 @ [Print (''-------------------------'' @ nl)],
                                     Normal))
                             else
                               (evs2 @ [Print ''  - No sources retrieved.'',
                                        Print (''-------------------------'' @ nl)],
                                Normal))))
          else ([Prompt ''You: '', Print ''Please enter a prompt.''], Normal))"

text \<open>Lines 127 to 136: the handlers, tried in the order of the source.\<close>

definition handle_exception :: "py_exception \<Rightarrow> event list \<times> loop_ctl" where
  "handle_exception e =
     (if e = EOFError then ([Print (nl @ ''Exiting due to EOF.'')], Break)
      else if e = KeyboardInterrupt then
        ([Print (nl @ ''Exiting due to KeyboardInterrupt.'')], Break)
      else if is_Exception e then
        ([Print (nl @ ''An error occurred: '' @ exc_str e), Traceback e], Continue)
      else ([], Propagate e))"

text \<open>One pass through the loop.\<close>

definition chat_iteration :: "query_engine \<Rightarrow> input_event option \<Rightarrow> event list \<times> loop_ctl" where
  "chat_iteration query_engine inp =
     (case chat_body query_engine inp of
        (evs, Normal) \<Rightarrow> (evs, Continue)
      | (evs, BreakStmt) \<Rightarrow> (evs, Break)
      | (evs, Raise e) \<Rightarrow>
          (case handle_exception e of (evs', ctl) \<Rightarrow> (evs @ evs', ctl)))"

text \<open>
  The \<open>while True\<close> loop on a finite input. At the end of the input \<open>input\<close> raises
  \<open>EOFError\<close>, whose handler leaves the loop, so the loop ends on every input.
\<close>

fun chat_loop :: "query_engine \<Rightarrow> input_event list \<Rightarrow> event list \<times> py_exception option" where
  "chat_loop query_engine [] =
     (case chat_iteration query_engine None of
        (evs, Propagate e) \<Rightarrow> (evs, Some e)
      | (evs, _) \<Rightarrow> (evs, None))"
| "chat_loop query_engine (i # inputs) =
     (case chat_iteration query_engine (Some i) of
        (evs, Continue) \<Rightarrow>
          (case chat_loop query_engine inputs of (rest, r) \<Rightarrow> (evs @ rest, r))
      | (evs, Break) \<Rightarrow> (evs, None)
      | (evs, Propagate e) \<Rightarrow> (evs, Some e))"

definition run_chat_loop ::
  "query_engine \<Rightarrow> input_event list \<Rightarrow> world \<Rightarrow> (py_exception + unit) \<times> world" where
  "run_chat_loop query_engine inputs w =
     (let w1 = print (nl @ ''Starting RAG chat. Type '' @ quote ''quit'' @ '' or ''
                        @ quote ''exit'' @ '' to end.'') w
      in case chat_loop query_engine inputs of
           (evs, Some e) \<Rightarrow> (Inl e, w1\<lparr>out := out w1 @ evs\<rparr>)
         | (evs, None) \<Rightarrow>
             (Inr (), print (nl @ ''Exiting chat.'') (w1\<lparr>out := out w1 @ evs\<rparr>)))"

definition query_main ::
  "providers \<Rightarrow> input_event list \<Rightarrow> world \<Rightarrow> (py_exception + unit) \<times> world" where
  "query_main P inputs w =
     (let w1 = print ''--- Starting RAG Query Interface ---'' w;
          w2 = setup_llm_and_embed_models w1
      in case load_vector_store_and_index w2 of
           (Inl e, w3) \<Rightarrow> (Inl e, w3)
         | (Inr index, w3) \<Rightarrow>
             (case create_query_engine P index w3 of
                (query_engine, w4) \<Rightarrow>
                  (case run_chat_loop query_engine inputs w4 of
                     (Inl e, w5) \<Rightarrow> (Inl e, w5)
                   | (Inr _, w5) \<Rightarrow>
                       (Inr (), print ''--- RAG Query Interface Closed ---'' w5))))"

text \<open>The queries a run has issued, in order.\<close>

fun query_calls :: "event list \<Rightarrow> string list" where
  "query_calls [] = []"
| "query_calls (QueryCall q # evs) = q # query_calls evs"
| "query_calls (_ # evs) = query_calls evs"

subsection \<open>Concrete inputs of the query script\<close>

text \<open>A query engine whose \<open>query\<close> is interrupted before it returns.\<close>

definition interrupted_engine :: query_engine where
  "interrupted_engine q = Inl KeyboardInterrupt"

text \<open>A query engine whose \<open>query\<close> raises \<open>EOFError\<close>.\<close>

definition eof_engine :: query_engine where
  "eof_engine q = Inl EOFError"

text \<open>A query engine whose \<open>query\<close> fails: the model is unreachable.\<close>

definition failing_engine :: query_engine where
  "failing_engine q = Inl (OtherError ''model unreachable'')"

text \<open>A query engine that streams the same two tokens for every query and has no sources.\<close>

definition answering_engine :: query_engine where
  "answering_engine q =
     Inr \<lparr>response_gen = Some ([''Rub '', ''sticks.''], None), response = None,
          source_nodes = []\<rparr>"

definition dot :: "real list \<Rightarrow> real list \<Rightarrow> real" where
  "dot a b = sum_list (map2 (*) a b)"

definition canned_llm :: "string \<Rightarrow> py_exception + (string list \<times> py_exception option)" where
  "canned_llm prompt = Inr ([''Rub '', ''sticks.''], None)"

text \<open>Providers that embed a text by its length and answer every prompt alike.\<close>

definition example_providers :: providers where
  "example_providers = \<lparr>embed_text = length_embed, similarity = dot, generate = canned_llm\<rparr>"

text \<open>A store that holds a collection of another name only.\<close>

definition notes_only_world :: world where
  "notes_only_world =
     \<lparr>data_dir = None,
      persist_dir = Some \<lparr>collections = [''notes'' \<mapsto> [water_entry]], other_files = []\<rparr>,
      out = []\<rparr>"

text \<open>A query engine whose token stream is interrupted after one token.\<close>

definition stream_interrupted_engine :: query_engine where
  "stream_interrupted_engine q =
     Inr \<lparr>response_gen = Some ([''Rub ''], Some KeyboardInterrupt), response = None,
          source_nodes = []\<rparr>"

text \<open>A store with the configured collection, holding one entry.\<close>

definition ingested_world :: world where
  "ingested_world =
     \<lparr>data_dir = Some [fire_file], persist_dir = Some (fresh_persist [water_entry]), out = []\<rparr>"

definition four_entries :: "entry list" where
  "four_entries =
     [water_entry, water_entry\<lparr>entry_id := ''b''\<rparr>, water_entry\<lparr>entry_id := ''c''\<rparr>,
      water_entry\<lparr>entry_id := ''d''\<rparr>]"

section \<open>Properties of the ingestion\<close>

subsection \<open>What each step reads and writes\<close>

lemma print_fields [simp]:
  "data_dir (print s w) = data_dir w"
  "persist_dir (print s w) = persist_dir w"
  "out (print s w) = out w @ [Print s]"
  by (simp_all add: print_def)

lemma setup_fields [simp]:
  "data_dir (setup_llm_and_embed_models w) = data_dir w"
  "persist_dir (setup_llm_and_embed_models w) = persist_dir w"
  "out (setup_llm_and_embed_models w) = out w @
     [Print (''Setting LLM model: '' @ LLM_MODEL_NAME),
      Print (''Setting embedding model: '' @ EMBEDDING_MODEL_NAME),
      Print ''LLM and embedding models set.'']"
  by (simp_all add: setup_llm_and_embed_models_def)

lemma ivs_fst [simp]: "fst (initialize_vector_store w) = COLLECTION_NAME"
  by (simp add: initialize_vector_store_def Let_def)

lemma ivs_persist [simp]:
  "persist_dir (snd (initialize_vector_store w)) = Some (fresh_persist [])"
  by (simp add: initialize_vector_store_def Let_def rmtree_def makedirs_def
        get_or_create_collection_def fresh_persist_def split: option.splits)

lemma ivs_data [simp]: "data_dir (snd (initialize_vector_store w)) = data_dir w"
  by (simp add: initialize_vector_store_def Let_def rmtree_def makedirs_def
        get_or_create_collection_def split: option.splits)

lemma ivs_out:
  "out (snd (initialize_vector_store w)) = out w @
     (if persist_dir w \<noteq> None
      then [Print (''Wiping previous database at '' @ PERSIST_DIR)] else []) @
     [Print (''Initializing ChromaDB client at '' @ PERSIST_DIR @ ''...''),
      Print (''Getting or creating Chroma collection: '' @ COLLECTION_NAME),
      Print ''ChromaDB vector store initialized.'']"
  by (simp add: initialize_vector_store_def Let_def rmtree_def makedirs_def
        get_or_create_collection_def split: option.splits)

lemma ld_fields [simp]:
  "data_dir (snd (load_documents r w)) = data_dir w"
  "persist_dir (snd (load_documents r w)) = persist_dir w"
  by (simp_all add: load_documents_def Let_def
        split: option.splits list.splits sum.splits py_exception.splits)

lemma ld_fst_cong:
  "data_dir w = data_dir w' \<Longrightarrow> fst (load_documents r w) = fst (load_documents r w')"
  by (simp add: load_documents_def Let_def
        split: option.splits list.splits sum.splits py_exception.splits)

lemma ld_fail:
  "data_dir w = None \<or> data_dir w = Some [] \<Longrightarrow>
   load_documents r w = (Inl (SystemExit 1),
     print ''Please create it and add your documents.''
       (print (''ERROR: Data directory '' @ quote DATA_DIR @ '' is missing or empty.'') w))"
  by (auto simp add: load_documents_def Let_def)

lemma id_data [simp]: "data_dir (snd (ingest_documents i docs vs w)) = data_dir w"
  by (simp add: ingest_documents_def Let_def split: option.splits prod.splits)

lemma id_persist:
  "persist_dir w = Some (fresh_persist []) \<Longrightarrow>
   persist_dir (snd (ingest_documents i docs COLLECTION_NAME w))
     = Some (fresh_persist (snd (i docs [])))"
  by (simp add: ingest_documents_def Let_def fresh_persist_def
        split: option.splits prod.splits)

lemma id_fst:
  "persist_dir w = Some (fresh_persist []) \<Longrightarrow>
   fst (ingest_documents i docs COLLECTION_NAME w)
     = (case fst (i docs []) of Some e \<Rightarrow> Inl e | None \<Rightarrow> Inr ())"
  by (simp add: ingest_documents_def Let_def fresh_persist_def
        split: option.splits prod.splits)

subsection \<open>The whole run\<close>

text \<open>
  The store a run leaves, its result and the source directory, in terms of what the
  reader makes of the source directory and the indexer of an empty collection.
\<close>

lemma ingestion_main_summary:
  "persist_dir (snd (ingestion_main r i w)) =
     Some (fresh_persist (case fst (load_documents r w) of
                            Inl e \<Rightarrow> [] | Inr docs \<Rightarrow> snd (i docs [])))
   \<and> fst (ingestion_main r i w) =
     (case fst (load_documents r w) of
        Inl e \<Rightarrow> Inl e
      | Inr docs \<Rightarrow> (case fst (i docs []) of Some e \<Rightarrow> Inl e | None \<Rightarrow> Inr ()))
   \<and> data_dir (snd (ingestion_main r i w)) = data_dir w"
proof -
  define w2 where
    "w2 = setup_llm_and_embed_models (print ''--- Starting RAG Ingestion Process ---'' w)"
  obtain vs w3 where init: "initialize_vector_store w2 = (vs, w3)"
    by (cases "initialize_vector_store w2")
  have vs: "vs = COLLECTION_NAME" and w3: "w3 = snd (initialize_vector_store w2)"
    using ivs_fst [of w2] init by simp_all
  obtain res w4 where ld: "load_documents r w3 = (res, w4)"
    by (cases "load_documents r w3")
  have d3: "data_dir w3 = data_dir w"
    by (simp add: w3 w2_def)
  have p3: "persist_dir w3 = Some (fresh_persist [])"
    by (simp add: w3)
  have res: "res = fst (load_documents r w)"
    using ld_fst_cong [OF d3, of r] ld by simp
  have w4: "w4 = snd (load_documents r w3)"
    using ld by simp
  have d4: "data_dir w4 = data_dir w" and p4: "persist_dir w4 = Some (fresh_persist [])"
    by (simp_all add: w4 d3 p3)
  show ?thesis
  proof (cases res)
    case (Inl e)
    then show ?thesis
      using init ld res [symmetric] d4 p4
      by (simp add: ingestion_main_def w2_def [symmetric] Let_def)
  next
    case (Inr docs)
    obtain res5 w5 where ing: "ingest_documents i docs COLLECTION_NAME w4 = (res5, w5)"
      by (cases "ingest_documents i docs COLLECTION_NAME w4")
    have w5: "w5 = snd (ingest_documents i docs COLLECTION_NAME w4)"
      using ing by simp
    have d5: "data_dir w5 = data_dir w"
      by (simp add: w5 d4)
    have p5: "persist_dir w5 = Some (fresh_persist (snd (i docs [])))"
      using id_persist [OF p4, of i docs] ing by simp
    have r5: "res5 = (case fst (i docs []) of Some e \<Rightarrow> Inl e | None \<Rightarrow> Inr ())"
      using id_fst [OF p4, of i docs] ing by simp
    show ?thesis
      using Inr init vs ld res [symmetric] ing d5 p5 r5
      by (cases res5)
         (simp_all add: ingestion_main_def w2_def [symmetric] Let_def split: option.splits)
  qed
qed

lemmas ingestion_persist = ingestion_main_summary [THEN conjunct1]
lemmas ingestion_result = ingestion_main_summary [THEN conjunct2, THEN conjunct1]
lemmas ingestion_data_dir = ingestion_main_summary [THEN conjunct2, THEN conjunct2]

text \<open>
  C5. Running the ingestion twice in succession on the same source directory leaves the
  same persisted state (the same collection with the same entries, hence the same entry
  count) and the same result as running it once, whatever the store held before.
\<close>

theorem ingestion_idempotent:
  "persist_dir (snd (ingestion_main r i (snd (ingestion_main r i w))))
     = persist_dir (snd (ingestion_main r i w))
   \<and> stored (snd (ingestion_main r i (snd (ingestion_main r i w)))) COLLECTION_NAME
     = stored (snd (ingestion_main r i w)) COLLECTION_NAME
   \<and> fst (ingestion_main r i (snd (ingestion_main r i w))) = fst (ingestion_main r i w)"
proof -
  let ?w1 = "snd (ingestion_main r i w)"
  have same_dir: "data_dir ?w1 = data_dir w"
    by (rule ingestion_data_dir)
  have same_docs: "fst (load_documents r ?w1) = fst (load_documents r w)"
    by (rule ld_fst_cong [OF same_dir])
  have p: "persist_dir (snd (ingestion_main r i ?w1)) = persist_dir ?w1"
    by (simp add: ingestion_persist same_docs)
  moreover have "fst (ingestion_main r i ?w1) = fst (ingestion_main r i w)"
    by (simp add: ingestion_result same_docs)
  ultimately show ?thesis
    by (simp add: stored_def)
qed

lemma ingestion_fail_out:
  assumes "data_dir w = None \<or> data_dir w = Some []"
  shows "out (snd (ingestion_main r i w)) = out w @
     [Print ''--- Starting RAG Ingestion Process ---'',
      Print (''Setting LLM model: '' @ LLM_MODEL_NAME),
      Print (''Setting embedding model: '' @ EMBEDDING_MODEL_NAME),
      Print ''LLM and embedding models set.''] @
     (if persist_dir w \<noteq> None
      then [Print (''Wiping previous database at '' @ PERSIST_DIR)] else []) @
     [Print (''Initializing ChromaDB client at '' @ PERSIST_DIR @ ''...''),
      Print (''Getting or creating Chroma collection: '' @ COLLECTION_NAME),
      Print ''ChromaDB vector store initialized.'',
      Print (''ERROR: Data directory '' @ quote DATA_DIR @ '' is missing or empty.''),
      Print ''Please create it and add your documents.'']"
proof -
  define w2 where
    "w2 = setup_llm_and_embed_models (print ''--- Starting RAG Ingestion Process ---'' w)"
  obtain vs w3 where init: "initialize_vector_store w2 = (vs, w3)"
    by (cases "initialize_vector_store w2")
  have w3: "w3 = snd (initialize_vector_store w2)"
    using init by simp
  have "data_dir w3 = data_dir w"
    by (simp add: w3 w2_def)
  then have d3: "data_dir w3 = None \<or> data_dir w3 = Some []"
    using assms by simp
  have o3: "out w3 = out w2 @
     (if persist_dir w \<noteq> None
      then [Print (''Wiping previous database at '' @ PERSIST_DIR)] else []) @
     [Print (''Initializing ChromaDB client at '' @ PERSIST_DIR @ ''...''),
      Print (''Getting or creating Chroma collection: '' @ COLLECTION_NAME),
      Print ''ChromaDB vector store initialized.'']"
    unfolding w3 ivs_out by (simp add: w2_def)
  have o2: "out w2 = out w @
     [Print ''--- Starting RAG Ingestion Process ---'',
      Print (''Setting LLM model: '' @ LLM_MODEL_NAME),
      Print (''Setting embedding model: '' @ EMBEDDING_MODEL_NAME),
      Print ''LLM and embedding models set.'']"
    by (simp add: w2_def)
  show ?thesis
    using init ld_fail [OF d3, of r] o3 o2
    by (simp add: ingestion_main_def w2_def [symmetric] Let_def)
qed

lemma ld_spec_reader:
  "data_dir w = Some files \<Longrightarrow>
   fst (load_documents spec_reader w) =
     (if filter readable files = [] then Inl (SystemExit 1)
      else Inr (map to_document (filter readable files)))"
  by (cases files) (simp_all add: load_documents_def Let_def spec_reader_def)

text \<open>
  C1, as the code has it. When the source directory is missing or empty the run ends with
  \<open>SystemExit(1)\<close> (exit status 1) after printing the diagnostic of \<open>load_documents\<close>,
  but \<open>main\<close> calls \<open>initialize_vector_store\<close> before \<open>load_documents\<close>: by then the
  persistence directory has been wiped and recreated with an empty collection of the
  configured name, and the wipe message (if there was a store) precedes the diagnostic.
\<close>

theorem ingestion_missing_source:
  assumes "data_dir w = None \<or> data_dir w = Some []"
  shows "fst (ingestion_main r i w) = Inl (SystemExit 1)
    \<and> exit_code (fst (ingestion_main r i w)) = 1
    \<and> persist_dir (snd (ingestion_main r i w)) = Some (fresh_persist [])
    \<and> out (snd (ingestion_main r i w)) = out w @
     [Print ''--- Starting RAG Ingestion Process ---'',
      Print (''Setting LLM model: '' @ LLM_MODEL_NAME),
      Print (''Setting embedding model: '' @ EMBEDDING_MODEL_NAME),
      Print ''LLM and embedding models set.''] @
     (if persist_dir w \<noteq> None
      then [Print (''Wiping previous database at '' @ PERSIST_DIR)] else []) @
     [Print (''Initializing ChromaDB client at '' @ PERSIST_DIR @ ''...''),
      Print (''Getting or creating Chroma collection: '' @ COLLECTION_NAME),
      Print ''ChromaDB vector store initialized.'',
      Print (''ERROR: Data directory '' @ quote DATA_DIR @ '' is missing or empty.''),
      Print ''Please create it and add your documents.'']"
proof -
  have ld: "fst (load_documents r w) = Inl (SystemExit 1)"
    using ld_fail [OF assms, of r] by simp
  have "fst (ingestion_main r i w) = Inl (SystemExit 1)"
    by (simp add: ingestion_result ld)
  moreover have "persist_dir (snd (ingestion_main r i w)) = Some (fresh_persist [])"
    by (simp add: ingestion_persist ld)
  ultimately show ?thesis
    using ingestion_fail_out [OF assms, of r i] by simp
qed

text \<open>The run on a populated store with no source directory.\<close>

theorem ingestion_missing_source_witness:
  "data_dir world_no_data = None
   \<and> exit_code (fst (ingestion_main spec_reader (spec_indexer length_embed) world_no_data)) = 1
   \<and> stored (snd (ingestion_main spec_reader (spec_indexer length_embed) world_no_data))
        COLLECTION_NAME = Some []"
  using ingestion_missing_source [of world_no_data spec_reader "spec_indexer length_embed"]
  by (simp add: world_no_data_def stored_def fresh_persist_def)

text \<open>
  C1 as stated fails: with an empty source directory and a populated store, the run exits
  with status 1 and the collection that held one entry is empty afterwards.
\<close>

theorem fail_fast_after_wipe_counterexample:
  "data_dir world_empty_data = Some []
   \<and> exit_code (fst (ingestion_main spec_reader (spec_indexer length_embed) world_empty_data)) = 1
   \<and> stored world_empty_data COLLECTION_NAME = Some [water_entry]
   \<and> stored (snd (ingestion_main spec_reader (spec_indexer length_embed) world_empty_data))
        COLLECTION_NAME = Some []
   \<and> stored (snd (ingestion_main spec_reader (spec_indexer length_embed) world_empty_data))
        COLLECTION_NAME \<noteq> stored world_empty_data COLLECTION_NAME"
proof -
  have d: "data_dir world_empty_data = None \<or> data_dir world_empty_data = Some []"
    by (simp add: world_empty_data_def)
  have ld: "fst (load_documents spec_reader world_empty_data) = Inl (SystemExit 1)"
    using ld_fail [OF d, of spec_reader] by simp
  have before: "stored world_empty_data COLLECTION_NAME = Some [water_entry]"
    by (simp add: stored_def world_empty_data_def old_persist_def)
  have after: "stored (snd (ingestion_main spec_reader (spec_indexer length_embed)
                 world_empty_data)) COLLECTION_NAME = Some []"
    by (simp add: ingestion_persist ld stored_def fresh_persist_def)
  have code: "exit_code (fst (ingestion_main spec_reader (spec_indexer length_embed)
                 world_empty_data)) = 1"
    by (simp add: ingestion_result ld)
  have "data_dir world_empty_data = Some []"
    by (simp add: world_empty_data_def)
  then show ?thesis
    using before after code by simp
qed

text \<open>
  C4, as the code has it. Every run removes the whole persistence directory and recreates
  it: afterwards it holds the collection of the configured name (rebuilt from the source
  directory) and nothing else, neither another collection nor another file. The source
  directory is left as it was.
\<close>

theorem ingestion_wipes_directory:
  "stored (snd (ingestion_main r i w)) name =
     (if name = COLLECTION_NAME
      then Some (case fst (load_documents r w) of Inl e \<Rightarrow> [] | Inr docs \<Rightarrow> snd (i docs []))
      else None)
   \<and> map_option other_files (persist_dir (snd (ingestion_main r i w))) = Some []
   \<and> data_dir (snd (ingestion_main r i w)) = data_dir w"
  by (simp add: stored_def ingestion_persist ingestion_data_dir fresh_persist_def)

text \<open>
  C4 as stated fails: a completed run on a store that also holds a collection \<open>notes\<close>
  and a file \<open>README.txt\<close> leaves neither.
\<close>

theorem other_data_destroyed_counterexample:
  "fst (ingestion_main spec_reader (spec_indexer length_embed) world_fire) = Inr ()
   \<and> stored world_fire ''notes'' = Some [water_entry]
   \<and> stored (snd (ingestion_main spec_reader (spec_indexer length_embed) world_fire)) ''notes''
       = None
   \<and> map_option other_files (persist_dir world_fire) = Some [''README.txt'']
   \<and> map_option other_files
        (persist_dir (snd (ingestion_main spec_reader (spec_indexer length_embed) world_fire)))
       = Some []"
proof -
  have ld: "fst (load_documents spec_reader world_fire) = Inr [to_document fire_file]"
    using ld_spec_reader [of world_fire "[fire_file]"]
    by (simp add: world_fire_def fire_file_def)
  have res: "fst (ingestion_main spec_reader (spec_indexer length_embed) world_fire) = Inr ()"
    by (simp add: ingestion_result ld spec_indexer_def)
  have after: "persist_dir (snd (ingestion_main spec_reader (spec_indexer length_embed)
                 world_fire)) = Some (fresh_persist [to_entry length_embed (to_document fire_file)])"
    by (simp add: ingestion_persist ld spec_indexer_def)
  have gone: "stored (snd (ingestion_main spec_reader (spec_indexer length_embed) world_fire))
                ''notes'' = None"
    by (simp add: stored_def after fresh_persist_def COLLECTION_NAME_def)
  have before: "stored world_fire ''notes'' = Some [water_entry]"
    "map_option other_files (persist_dir world_fire) = Some [''README.txt'']"
    by (simp_all add: stored_def world_fire_def old_persist_def COLLECTION_NAME_def)
  show ?thesis
    using res gone before by (simp add: after fresh_persist_def)
qed

text \<open>
  C2, with the loader and the index as the specification describes them. On a source
  directory with \<open>N\<close> readable files the run completes exactly when \<open>N > 0\<close>, and a
  completed run leaves exactly \<open>N\<close> entries in the configured collection, one per
  readable file, each holding the whole text of its document, whatever the store held
  before.
\<close>

theorem ingestion_entry_count:
  assumes "data_dir w = Some files"
  shows "(fst (ingestion_main spec_reader (spec_indexer emb) w) = Inr ())
           = (filter readable files \<noteq> [])
    \<and> (fst (ingestion_main spec_reader (spec_indexer emb) w) = Inr () \<longrightarrow>
         stored (snd (ingestion_main spec_reader (spec_indexer emb) w)) COLLECTION_NAME
           = Some (map (to_entry emb) (map to_document (filter readable files)))
         \<and> map_option length
             (stored (snd (ingestion_main spec_reader (spec_indexer emb) w)) COLLECTION_NAME)
           = Some (length (filter readable files)))"
  by (simp add: ingestion_result ingestion_persist ld_spec_reader [OF assms]
        stored_def fresh_persist_def spec_indexer_def)

text \<open>The first run on a source directory holding \<open>fire.txt\<close>.\<close>

theorem ingestion_entry_count_witness:
  "data_dir world_first_run = Some [fire_file]
   \<and> fst (ingestion_main spec_reader (spec_indexer length_embed) world_first_run) = Inr ()
   \<and> stored (snd (ingestion_main spec_reader (spec_indexer length_embed) world_first_run))
        COLLECTION_NAME
      = Some [\<lparr>entry_id = ''fire.txt'', entry_vector = [52],
               entry_text = ''Rubbing sticks together generates heat via friction.'',
               entry_metadata = [(''file_name'', ''fire.txt'')]\<rparr>]"
  using ingestion_entry_count [of world_first_run "[fire_file]" length_embed]
  by (simp add: world_first_run_def fire_file_def to_entry_def to_document_def length_embed_def)

section \<open>Properties of the chat loop\<close>

subsection \<open>Lower-casing and stripping\<close>

lemma length_lower: "length (lower s) = length s"
  by (simp add: lower_def)

lemma space_not_lowered: "is_space c \<Longrightarrow> lower_char c = c"
  by (auto simp add: is_space_def lower_char_def Let_def)

lemmas string_eval = lower_def lower_char_def strip_def is_space_def Let_def

lemma strip_empty_iff: "(strip s = []) = (\<forall>c\<in>set s. is_space c)"
proof
  assume "strip s = []"
  then have "dropWhile is_space (rev (dropWhile is_space s)) = []"
    by (simp add: strip_def)
  then have all: "\<forall>c\<in>set (dropWhile is_space s). is_space c"
    by auto
  have "dropWhile is_space s = []"
  proof (cases "dropWhile is_space s")
    case Nil
    then show ?thesis .
  next
    case (Cons c cs)
    then have "\<not> is_space c"
      using hd_dropWhile [of is_space s] by simp
    with all Cons show ?thesis by simp
  qed
  then show "\<forall>c\<in>set s. is_space c"
    by auto
next
  assume "\<forall>c\<in>set s. is_space c"
  then have d: "dropWhile is_space s = []"
    by auto
  show "strip s = []"
    unfolding strip_def d by simp
qed

lemma keyword_not_blank:
  assumes "lower k \<in> set [''quit'', ''exit'']"
  shows "\<exists>c\<in>set k. \<not> is_space c"
proof -
  from assms obtain c cs where k: "k = c # cs"
    by (cases k) (auto simp add: lower_def)
  have "lower_char c = CHR ''q'' \<or> lower_char c = CHR ''e''"
    using assms k by (auto simp add: lower_def)
  moreover have "\<not> is_space CHR ''q''" "\<not> is_space CHR ''e''"
    by (simp_all add: is_space_def)
  ultimately have "\<not> is_space c"
    using space_not_lowered [of c] by auto
  then show ?thesis
    using k by auto
qed

lemma keyword_length:
  "lower k \<in> set [''quit'', ''exit''] \<Longrightarrow> length k = 4"
proof -
  assume "lower k \<in> set [''quit'', ''exit'']"
  then have "length (lower k) = 4" by auto
  then show ?thesis by (simp add: length_lower)
qed

subsection \<open>One pass through the loop\<close>

lemma chat_body_exit:
  "lower s \<in> set [''quit'', ''exit''] \<Longrightarrow>
   chat_body qe (Some (Line s)) = ([Prompt ''You: ''], BreakStmt)"
  by (simp add: chat_body_def)

lemma chat_iteration_exit:
  "lower s \<in> set [''quit'', ''exit''] \<Longrightarrow>
   chat_iteration qe (Some (Line s)) = ([Prompt ''You: ''], Break)"
  by (simp add: chat_iteration_def chat_body_exit)

lemma chat_loop_continue:
  "chat_iteration qe (Some i) = (evs, Continue) \<Longrightarrow>
   chat_loop qe (i # rest) = (evs @ fst (chat_loop qe rest), snd (chat_loop qe rest))"
  by (simp add: split_beta)

lemma chat_loop_break:
  "chat_iteration qe (Some i) = (evs, Break) \<Longrightarrow> chat_loop qe (i # rest) = (evs, None)"
  by simp

lemma chat_body_raises:
  assumes "lower s \<notin> set [''quit'', ''exit'']" "strip s \<noteq> []"
    and "qe s = Inl e
         \<or> (\<exists>r tokens. qe s = Inr r \<and> response_gen r = Some (tokens, Some e))"
  shows "\<exists>evs. chat_body qe (Some (Line s)) =
           ([Prompt ''You: '', Print (nl @ ''Querying with: '' @ quote s @ ''...''),
             QueryCall s] @ evs, Raise e)"
  using assms
  by (auto simp add: chat_body_def Let_def print_response_def)

text \<open>
  C3, as the code has it. A \<open>KeyboardInterrupt\<close> raised while a query is in progress,
  by \<open>query_engine.query\<close> or by the token stream, is caught by the handler of line 130,
  which prints its message and leaves the loop: the pass ends with \<open>break\<close>, and the rest
  of the input is not read.
\<close>

theorem interrupt_ends_loop:
  assumes "lower s \<notin> set [''quit'', ''exit'']" "strip s \<noteq> []"
    and "qe s = Inl KeyboardInterrupt
         \<or> (\<exists>r tokens. qe s = Inr r
               \<and> response_gen r = Some (tokens, Some KeyboardInterrupt))"
  shows "\<exists>evs. chat_iteration qe (Some (Line s)) =
           ([Prompt ''You: '', Print (nl @ ''Querying with: '' @ quote s @ ''...''),
             QueryCall s] @ evs @ [Print (nl @ ''Exiting due to KeyboardInterrupt.'')], Break)
         \<and> chat_loop qe (Line s # rest) =
           ([Prompt ''You: '', Print (nl @ ''Querying with: '' @ quote s @ ''...''),
             QueryCall s] @ evs @ [Print (nl @ ''Exiting due to KeyboardInterrupt.'')], None)"
proof -
  from assms chat_body_raises [of s qe KeyboardInterrupt] obtain evs where
    body: "chat_body qe (Some (Line s)) =
           ([Prompt ''You: '', Print (nl @ ''Querying with: '' @ quote s @ ''...''),
             QueryCall s] @ evs, Raise KeyboardInterrupt)"
    by blast
  have it: "chat_iteration qe (Some (Line s)) =
           ([Prompt ''You: '', Print (nl @ ''Querying with: '' @ quote s @ ''...''),
             QueryCall s] @ evs @ [Print (nl @ ''Exiting due to KeyboardInterrupt.'')], Break)"
    by (simp add: chat_iteration_def body handle_exception_def)
  show ?thesis
    using it chat_loop_break [OF it, of rest] by blast
qed

text \<open>An interrupt in the middle of the token stream.\<close>

theorem interrupt_ends_loop_witness:
  "lower ''fire?'' \<notin> set [''quit'', ''exit''] \<and> strip ''fire?'' \<noteq> []
   \<and> (\<exists>evs. chat_loop stream_interrupted_engine [Line ''fire?'', Line ''water?''] =
         ([Prompt ''You: '', Print (nl @ ''Querying with: '' @ quote ''fire?'' @ ''...''),
           QueryCall ''fire?''] @ evs @ [Print (nl @ ''Exiting due to KeyboardInterrupt.'')],
          None))"
proof -
  have a: "lower ''fire?'' \<notin> set [''quit'', ''exit'']"
    by (simp add: string_eval)
  have b: "strip ''fire?'' \<noteq> []"
    by (simp add: string_eval)
  have c: "stream_interrupted_engine ''fire?'' = Inl KeyboardInterrupt
         \<or> (\<exists>r tokens. stream_interrupted_engine ''fire?'' = Inr r
               \<and> response_gen r = Some (tokens, Some KeyboardInterrupt))"
    by (simp add: stream_interrupted_engine_def)
  show ?thesis
    using a b c
      interrupt_ends_loop [where s = "''fire?''" and qe = stream_interrupted_engine
        and rest = "[Line ''water?'']"]
    by blast
qed

text \<open>
  C3 as stated fails: with a query interrupted, the pass ends with \<open>break\<close>, not with a
  return to the prompt, and the second line of the input is never read.
\<close>

theorem interrupt_continues_counterexample:
  "snd (chat_iteration interrupted_engine (Some (Line ''fire?''))) = Break
   \<and> snd (chat_iteration interrupted_engine (Some (Line ''fire?''))) \<noteq> Continue
   \<and> chat_loop interrupted_engine [Line ''fire?'', Line ''water?''] =
       ([Prompt ''You: '', Print (nl @ ''Querying with: '' @ quote ''fire?'' @ ''...''),
         QueryCall ''fire?'', Print (nl @ ''Exiting due to KeyboardInterrupt.'')], None)"
  by (simp add: chat_iteration_def chat_body_def handle_exception_def interrupted_engine_def
        string_eval)

text \<open>
  C6, as the code has it. An error raised by \<open>query_engine.query\<close> or by the token stream
  that is an \<open>Exception\<close> other than \<open>EOFError\<close> is caught by the handler of line 133:
  the diagnostic and the stack trace are written, the pass ends with \<open>Continue\<close>, and the
  loop goes on with the rest of the input.
\<close>

theorem query_error_continues:
  assumes "lower s \<notin> set [''quit'', ''exit'']" "strip s \<noteq> []"
    and "qe s = Inl e
         \<or> (\<exists>r tokens. qe s = Inr r \<and> response_gen r = Some (tokens, Some e))"
    and "is_Exception e" "e \<noteq> EOFError"
  shows "\<exists>evs. chat_iteration qe (Some (Line s)) =
           ([Prompt ''You: '', Print (nl @ ''Querying with: '' @ quote s @ ''...''),
             QueryCall s] @ evs
            @ [Print (nl @ ''An error occurred: '' @ exc_str e), Traceback e], Continue)
         \<and> chat_loop qe (Line s # rest) =
           ([Prompt ''You: '', Print (nl @ ''Querying with: '' @ quote s @ ''...''),
             QueryCall s] @ evs
            @ [Print (nl @ ''An error occurred: '' @ exc_str e), Traceback e]
            @ fst (chat_loop qe rest), snd (chat_loop qe rest))"
proof -
  from assms(1-3) chat_body_raises [of s qe e] obtain evs where
    body: "chat_body qe (Some (Line s)) =
           ([Prompt ''You: '', Print (nl @ ''Querying with: '' @ quote s @ ''...''),
             QueryCall s] @ evs, Raise e)"
    by blast
  have "e \<noteq> KeyboardInterrupt"
    using assms(4) by auto
  then have it: "chat_iteration qe (Some (Line s)) =
           ([Prompt ''You: '', Print (nl @ ''Querying with: '' @ quote s @ ''...''),
             QueryCall s] @ evs
            @ [Print (nl @ ''An error occurred: '' @ exc_str e), Traceback e], Continue)"
    using assms(4,5) by (simp add: chat_iteration_def body handle_exception_def)
  show ?thesis
    using it chat_loop_continue [OF it, of rest] by auto
qed

text \<open>An unreachable model, then \<open>exit\<close>.\<close>

theorem query_error_continues_witness:
  "lower ''fire?'' \<notin> set [''quit'', ''exit''] \<and> strip ''fire?'' \<noteq> []
   \<and> is_Exception (OtherError ''model unreachable'')
   \<and> (\<exists>evs. chat_loop failing_engine [Line ''fire?'', Line ''exit''] =
         ([Prompt ''You: '', Print (nl @ ''Querying with: '' @ quote ''fire?'' @ ''...''),
           QueryCall ''fire?''] @ evs
          @ [Print (nl @ ''An error occurred: model unreachable''),
             Traceback (OtherError ''model unreachable''), Prompt ''You: ''], None))"
proof -
  have a: "lower ''fire?'' \<notin> set [''quit'', ''exit'']"
    by (simp add: string_eval)
  have b: "strip ''fire?'' \<noteq> []"
    by (simp add: string_eval)
  have c: "failing_engine ''fire?'' = Inl (OtherError ''model unreachable'')
         \<or> (\<exists>r tokens. failing_engine ''fire?'' = Inr r
               \<and> response_gen r = Some (tokens, Some (OtherError ''model unreachable'')))"
    by (simp add: failing_engine_def)
  have d: "is_Exception (OtherError ''model unreachable'')"
    "OtherError ''model unreachable'' \<noteq> EOFError"
    by simp_all
  have rest: "chat_loop failing_engine [Line ''exit''] = ([Prompt ''You: ''], None)"
    by (simp add: chat_iteration_def chat_body_def string_eval)
  from a b c d
    query_error_continues [where s = "''fire?''" and qe = failing_engine
      and e = "OtherError ''model unreachable''" and rest = "[Line ''exit'']"]
  obtain evs where
    "chat_loop failing_engine (Line ''fire?'' # [Line ''exit'']) =
       ([Prompt ''You: '', Print (nl @ ''Querying with: '' @ quote ''fire?'' @ ''...''),
         QueryCall ''fire?''] @ evs
        @ [Print (nl @ ''An error occurred: '' @ exc_str (OtherError ''model unreachable'')),
           Traceback (OtherError ''model unreachable'')]
        @ fst (chat_loop failing_engine [Line ''exit'']),
        snd (chat_loop failing_engine [Line ''exit'']))"
    by blast
  then have "chat_loop failing_engine [Line ''fire?'', Line ''exit''] =
         ([Prompt ''You: '', Print (nl @ ''Querying with: '' @ quote ''fire?'' @ ''...''),
           QueryCall ''fire?''] @ evs
          @ [Print (nl @ ''An error occurred: model unreachable''),
             Traceback (OtherError ''model unreachable''), Prompt ''You: ''], None)"
    by (simp add: rest del: chat_loop.simps)
  then show ?thesis
    using a b d(1) by blast
qed

text \<open>
  C6 as stated fails: \<open>EOFError\<close> is an \<open>Exception\<close>, but when a query raises it the
  handler of line 127 takes it, and the loop ends with the second line unread.
\<close>

theorem eof_error_in_query_counterexample:
  "is_Exception EOFError
   \<and> snd (chat_iteration eof_engine (Some (Line ''fire?''))) = Break
   \<and> chat_loop eof_engine [Line ''fire?'', Line ''water?''] =
       ([Prompt ''You: '', Print (nl @ ''Querying with: '' @ quote ''fire?'' @ ''...''),
         QueryCall ''fire?'', Print (nl @ ''Exiting due to EOF.'')], None)"
  by (simp add: chat_iteration_def chat_body_def handle_exception_def eof_engine_def
        string_eval)

text \<open>
  C10. A line made of an exit keyword (in any case) with white space before or after it is
  not an exit command: the lower-cased line is neither \<open>quit\<close> nor \<open>exit\<close>, since the
  comparison does not strip it, and it is not blank after stripping. The body of the
  \<open>try\<close> statement therefore takes the query branch: it calls \<open>query_engine.query\<close> on
  the line as typed, and what it prints and how it ends is what that call returns or
  raises; it never ends with \<open>break\<close>.
\<close>

theorem padded_keyword_is_query:
  assumes "lower k \<in> set [''quit'', ''exit'']"
    and "\<forall>c\<in>set a. is_space c" "\<forall>c\<in>set b. is_space c" "a @ b \<noteq> []"
  shows "lower (a @ k @ b) \<notin> set [''quit'', ''exit'']
       \<and> strip (a @ k @ b) \<noteq> []
       \<and> chat_body qe (Some (Line (a @ k @ b))) =
           (let evs0 = [Prompt ''You: '',
                        Print (nl @ ''Querying with: '' @ quote (a @ k @ b) @ ''...''),
                        QueryCall (a @ k @ b)]
            in case qe (a @ k @ b) of
                 Inl e \<Rightarrow> (evs0, Raise e)
               | Inr response_obj \<Rightarrow>
                   (case print_response response_obj of
                      (evs1, Some e) \<Rightarrow>
                        (evs0 @ [Print (nl @ ''--- Assistant Response ---'')] @ evs1, Raise e)
                    | (evs1, None) \<Rightarrow>
                        (let evs2 = evs0 @ [Print (nl @ ''--- Assistant Response ---'')] @ evs1
                                    @ [Print ''-------------------------'', ResponseTime,
                                       Print (nl @ ''--- Retrieved Sources ---'')]
                         in if source_nodes response_obj \<noteq> [] then
                              (case print_sources 0 (source_nodes response_obj) of
                                 (evs3, Some e) \<Rightarrow> (evs2 @ evs3, Raise e)
                               | (evs3, None) \<Rightarrow>
                                   (evs2 @ evs3 @ [Print (''-------------------------'' @ nl)],
                                    Normal))
                            else
                              (evs2 @ [Print ''  - No sources retrieved.'',
                                       Print (''-------------------------'' @ nl)],
                               Normal))))
       \<and> snd (chat_body qe (Some (Line (a @ k @ b)))) \<noteq> BreakStmt
       \<and> snd (chat_iteration qe (Some (Line (a @ k @ b))))
           = (case snd (chat_body qe (Some (Line (a @ k @ b)))) of
                Raise e \<Rightarrow> snd (handle_exception e) | _ \<Rightarrow> Continue)"
proof -
  let ?s = "a @ k @ b"
  have "length ?s \<noteq> 4"
    using keyword_length [OF assms(1)] assms(4) by auto
  then have "length (lower ?s) \<noteq> 4"
    by (simp add: length_lower)
  then have not_kw: "lower ?s \<notin> set [''quit'', ''exit'']"
    by auto
  have not_blank: "strip ?s \<noteq> []"
    using keyword_not_blank [OF assms(1)] by (auto simp add: strip_empty_iff)
  have body: "chat_body qe (Some (Line ?s)) =
           (let evs0 = [Prompt ''You: '',
                        Print (nl @ ''Querying with: '' @ quote ?s @ ''...''),
                        QueryCall ?s]
            in case qe ?s of
                 Inl e \<Rightarrow> (evs0, Raise e)
               | Inr response_obj \<Rightarrow>
                   (case print_response response_obj of
                      (evs1, Some e) \<Rightarrow>
                        (evs0 @ [Print (nl @ ''--- Assistant Response ---'')] @ evs1, Raise e)
                    | (evs1, None) \<Rightarrow>
                        (let evs2 = evs0 @ [Print (nl @ ''--- Assistant Response ---'')] @ evs1
                                    @ [Print ''-------------------------'', ResponseTime,
                                       Print (nl @ ''--- Retrieved Sources ---'')]
                         in if source_nodes response_obj \<noteq> [] then
                              (case print_sources 0 (source_nodes response_obj) of
                                 (evs3, Some e) \<Rightarrow> (evs2 @ evs3, Raise e)
                               | (evs3, None) \<Rightarrow>
                                   (evs2 @ evs3 @ [Print (''-------------------------'' @ nl)],
                                    Normal))
                            else
                              (evs2 @ [Print ''  - No sources retrieved.'',
                                       Print (''-------------------------'' @ nl)],
                               Normal))))"
    using not_kw not_blank unfolding chat_body_def by simp
  have no_break: "snd (chat_body qe (Some (Line ?s))) \<noteq> BreakStmt"
    unfolding body
    by (simp add: Let_def split: sum.splits prod.splits option.splits)
  have iteration: "snd (chat_iteration qe (Some (Line ?s)))
           = (case snd (chat_body qe (Some (Line ?s))) of
                Raise e \<Rightarrow> snd (handle_exception e) | _ \<Rightarrow> Continue)"
    using no_break
    by (cases "chat_body qe (Some (Line ?s))")
       (simp add: chat_iteration_def split: body_end.splits prod.splits)
  show ?thesis
    using not_kw not_blank body no_break iteration by blast
qed

text \<open>
  The line \<open>exit\<close> between two blanks, with an engine that answers: the answer is streamed
  and the loop returns to the prompt.
\<close>

theorem padded_keyword_is_query_witness:
  "lower ''exit'' \<in> set [''quit'', ''exit'']
   \<and> is_space CHR '' ''
   \<and> chat_body answering_engine (Some (Line '' exit '')) =
       ([Prompt ''You: '', Print (nl @ ''Querying with: '' @ quote '' exit '' @ ''...''),
         QueryCall '' exit '', Print (nl @ ''--- Assistant Response ---''),
         Token ''Rub '', Token ''sticks.'', Print [],
         Print ''-------------------------'', ResponseTime,
         Print (nl @ ''--- Retrieved Sources ---''),
         Print ''  - No sources retrieved.'',
         Print (''-------------------------'' @ nl)], Normal)
   \<and> snd (chat_iteration answering_engine (Some (Line '' exit ''))) = Continue"
proof -
  have a: "lower ''exit'' \<in> set [''quit'', ''exit'']"
    by (simp add: string_eval)
  have b: "\<forall>c\<in>set '' ''. is_space c"
    by (simp add: is_space_def)
  have c: "'' '' @ '' '' \<noteq> []"
    by simp
  note padded = padded_keyword_is_query [OF a b b c, of answering_engine]
  have body: "chat_body answering_engine (Some (Line '' exit '')) =
       ([Prompt ''You: '', Print (nl @ ''Querying with: '' @ quote '' exit '' @ ''...''),
         QueryCall '' exit '', Print (nl @ ''--- Assistant Response ---''),
         Token ''Rub '', Token ''sticks.'', Print [],
         Print ''-------------------------'', ResponseTime,
         Print (nl @ ''--- Retrieved Sources ---''),
         Print ''  - No sources retrieved.'',
         Print (''-------------------------'' @ nl)], Normal)"
    using padded [THEN conjunct2, THEN conjunct2, THEN conjunct1]
    by (simp add: answering_engine_def print_response_def)
  have "snd (chat_iteration answering_engine (Some (Line '' exit ''))) = Continue"
    using padded [THEN conjunct2, THEN conjunct2, THEN conjunct2, THEN conjunct2]
    by (simp add: body)
  then show ?thesis
    using a b body by simp
qed

section \<open>Properties of the query script\<close>

lemma query_calls_append: "query_calls (xs @ ys) = query_calls xs @ query_calls ys"
  by (induction xs rule: query_calls.induct) simp_all

lemma stored_print [simp]: "stored (print s w) name = stored w name"
  by (simp add: stored_def)

lemma stored_setup [simp]: "stored (setup_llm_and_embed_models w) name = stored w name"
  by (simp add: stored_def)

lemma lvs_ok:
  "stored w COLLECTION_NAME = Some index \<Longrightarrow>
   load_vector_store_and_index w =
     (Inr index,
      print ''Index loaded successfully from ChromaDB.''
        (print ''Loading index from vector store...''
          (print (''Getting Chroma collection: '' @ COLLECTION_NAME)
            (print (''Loading ChromaDB client from '' @ PERSIST_DIR @ ''...'') w))))"
  by (auto simp add: stored_def load_vector_store_and_index_def get_collection_def Let_def
        split: option.splits)

lemma lvs_missing:
  "stored w COLLECTION_NAME = None \<Longrightarrow>
   fst (load_vector_store_and_index w) = Inl (SystemExit 1)
   \<and> out (snd (load_vector_store_and_index w)) = out w @
       (case persist_dir w of
          None \<Rightarrow>
            [Print (''ERROR: ChromaDB persistence directory '' @ quote PERSIST_DIR
                      @ '' not found.''),
             Print (''Please run the rag_ingestion.py script first to create and populate ''
                      @ ''the database.'')]
        | Some db \<Rightarrow>
            [Print (''Loading ChromaDB client from '' @ PERSIST_DIR @ ''...''),
             Print (''Getting Chroma collection: '' @ COLLECTION_NAME),
             Print (''Error getting collection '' @ quote COLLECTION_NAME @ '': ''
                      @ ''Collection '' @ COLLECTION_NAME @ '' does not exist.''),
             Print ''Ensure the collection was created by rag_ingestion.py.''])"
  by (auto simp add: stored_def load_vector_store_and_index_def get_collection_def Let_def
        split: option.splits)

text \<open>
  C7. When the persistence directory does not exist, or exists without the configured
  collection, the query script ends with \<open>SystemExit(1)\<close> (exit status 1) after printing
  the diagnostic of the case at hand, and the run has issued no call of
  \<open>query_engine.query\<close>, whatever the input holds.
\<close>

theorem query_missing_store:
  assumes "stored w COLLECTION_NAME = None"
  shows "fst (query_main P inputs w) = Inl (SystemExit 1)
    \<and> exit_code (fst (query_main P inputs w)) = 1
    \<and> out (snd (query_main P inputs w)) = out w @
        [Print ''--- Starting RAG Query Interface ---'',
         Print (''Setting LLM model: '' @ LLM_MODEL_NAME),
         Print (''Setting embedding model: '' @ EMBEDDING_MODEL_NAME),
         Print ''LLM and embedding models set.''] @
        (case persist_dir w of
           None \<Rightarrow>
             [Print (''ERROR: ChromaDB persistence directory '' @ quote PERSIST_DIR
                       @ '' not found.''),
              Print (''Please run the rag_ingestion.py script first to create and populate ''
                       @ ''the database.'')]
         | Some db \<Rightarrow>
             [Print (''Loading ChromaDB client from '' @ PERSIST_DIR @ ''...''),
              Print (''Getting Chroma collection: '' @ COLLECTION_NAME),
              Print (''Error getting collection '' @ quote COLLECTION_NAME @ '': ''
                       @ ''Collection '' @ COLLECTION_NAME @ '' does not exist.''),
              Print ''Ensure the collection was created by rag_ingestion.py.''])
    \<and> query_calls (out (snd (query_main P inputs w))) = query_calls (out w)"
proof -
  define w2 where
    "w2 = setup_llm_and_embed_models (print ''--- Starting RAG Query Interface ---'' w)"
  have missing: "stored w2 COLLECTION_NAME = None"
    using assms by (simp add: w2_def)
  obtain res w3 where lvs: "load_vector_store_and_index w2 = (res, w3)"
    by (cases "load_vector_store_and_index w2")
  have res: "res = Inl (SystemExit 1)"
    using lvs_missing [OF missing] lvs by simp
  have p2: "persist_dir w2 = persist_dir w"
    by (simp add: w2_def)
  have o2: "out w2 = out w @
        [Print ''--- Starting RAG Query Interface ---'',
         Print (''Setting LLM model: '' @ LLM_MODEL_NAME),
         Print (''Setting embedding model: '' @ EMBEDDING_MODEL_NAME),
         Print ''LLM and embedding models set.'']"
    by (simp add: w2_def)
  have main: "query_main P inputs w = (Inl (SystemExit 1), w3)"
    using lvs res by (simp add: query_main_def Let_def w2_def [symmetric])
  have o3: "out w3 = out w2 @
       (case persist_dir w of
          None \<Rightarrow>
            [Print (''ERROR: ChromaDB persistence directory '' @ quote PERSIST_DIR
                      @ '' not found.''),
             Print (''Please run the rag_ingestion.py script first to create and populate ''
                      @ ''the database.'')]
        | Some db \<Rightarrow>
            [Print (''Loading ChromaDB client from '' @ PERSIST_DIR @ ''...''),
             Print (''Getting Chroma collection: '' @ COLLECTION_NAME),
             Print (''Error getting collection '' @ quote COLLECTION_NAME @ '': ''
                      @ ''Collection '' @ COLLECTION_NAME @ '' does not exist.''),
             Print ''Ensure the collection was created by rag_ingestion.py.''])"
    using lvs_missing [OF missing] lvs p2 by simp
  have calls: "query_calls (out w3) = query_calls (out w)"
    by (simp add: o3 o2 query_calls_append split: option.splits)
  show ?thesis
    using calls by (simp add: main o3 o2)
qed

text \<open>No persistence directory, and a directory without the configured collection.\<close>

theorem query_missing_store_witness:
  "stored world_first_run COLLECTION_NAME = None
   \<and> exit_code (fst (query_main example_providers [Line ''fire?''] world_first_run)) = 1
   \<and> out (snd (query_main example_providers [Line ''fire?''] world_first_run)) =
        [Print ''--- Starting RAG Query Interface ---'',
         Print (''Setting LLM model: '' @ LLM_MODEL_NAME),
         Print (''Setting embedding model: '' @ EMBEDDING_MODEL_NAME),
         Print ''LLM and embedding models set.'',
         Print (''ERROR: ChromaDB persistence directory '' @ quote PERSIST_DIR
                  @ '' not found.''),
         Print (''Please run the rag_ingestion.py script first to create and populate ''
                  @ ''the database.'')]
   \<and> stored notes_only_world COLLECTION_NAME = None
   \<and> exit_code (fst (query_main example_providers [Line ''fire?''] notes_only_world)) = 1
   \<and> query_calls (out (snd (query_main example_providers [Line ''fire?''] notes_only_world)))
       = []"
proof -
  have a: "stored world_first_run COLLECTION_NAME = None"
    by (simp add: stored_def world_first_run_def)
  have b: "stored notes_only_world COLLECTION_NAME = None"
    by (simp add: stored_def notes_only_world_def COLLECTION_NAME_def)
  have pa: "persist_dir world_first_run = None" "out world_first_run = []"
    by (simp_all add: world_first_run_def)
  have pb: "out notes_only_world = []"
    by (simp add: notes_only_world_def)
  note first = query_missing_store [OF a, of example_providers "[Line ''fire?'']"]
  note second = query_missing_store [OF b, of example_providers "[Line ''fire?'']"]
  have c1: "exit_code (fst (query_main example_providers [Line ''fire?''] world_first_run)) = 1"
    using first by blast
  have o1: "out (snd (query_main example_providers [Line ''fire?''] world_first_run)) =
        [Print ''--- Starting RAG Query Interface ---'',
         Print (''Setting LLM model: '' @ LLM_MODEL_NAME),
         Print (''Setting embedding model: '' @ EMBEDDING_MODEL_NAME),
         Print ''LLM and embedding models set.'',
         Print (''ERROR: ChromaDB persistence directory '' @ quote PERSIST_DIR
                  @ '' not found.''),
         Print (''Please run the rag_ingestion.py script first to create and populate ''
                  @ ''the database.'')]"
    using first [THEN conjunct2, THEN conjunct2, THEN conjunct1] by (simp add: pa)
  have c2: "exit_code (fst (query_main example_providers [Line ''fire?''] notes_only_world)) = 1"
    using second by blast
  have q2: "query_calls (out (snd (query_main example_providers [Line ''fire?'']
              notes_only_world))) = []"
    using second [THEN conjunct2, THEN conjunct2, THEN conjunct2] by (simp add: pb)
  show ?thesis
    using a b c1 o1 c2 q2 by blast
qed

text \<open>
  C9. When the line entered is \<open>quit\<close> or \<open>exit\<close> in any case, the pass through the loop
  ends with \<open>break\<close> for every query engine; on an existing store \<open>main\<close> returns (exit
  status 0), the output is the start-up messages, the prompt and the two closing messages,
  and no query has been issued, whatever follows in the input.
\<close>

theorem exit_keyword_terminates:
  assumes "lower s = ''quit'' \<or> lower s = ''exit''"
    and "stored w COLLECTION_NAME = Some index"
  shows "chat_iteration qe (Some (Line s)) = ([Prompt ''You: ''], Break)
    \<and> fst (query_main P (Line s # rest) w) = Inr ()
    \<and> exit_code (fst (query_main P (Line s # rest) w)) = 0
    \<and> out (snd (query_main P (Line s # rest) w)) = out w @
        [Print ''--- Starting RAG Query Interface ---'',
         Print (''Setting LLM model: '' @ LLM_MODEL_NAME),
         Print (''Setting embedding model: '' @ EMBEDDING_MODEL_NAME),
         Print ''LLM and embedding models set.'',
         Print (''Loading ChromaDB client from '' @ PERSIST_DIR @ ''...''),
         Print (''Getting Chroma collection: '' @ COLLECTION_NAME),
         Print ''Loading index from vector store...'',
         Print ''Index loaded successfully from ChromaDB.'',
         Print ''Creating query engine (with streaming enabled)...'',
         Print ''Query engine created.'',
         Print (nl @ ''Starting RAG chat. Type '' @ quote ''quit'' @ '' or ''
                  @ quote ''exit'' @ '' to end.''),
         Prompt ''You: '',
         Print (nl @ ''Exiting chat.''),
         Print ''--- RAG Query Interface Closed ---'']
    \<and> query_calls (out (snd (query_main P (Line s # rest) w))) = query_calls (out w)"
proof -
  have kw: "lower s \<in> set [''quit'', ''exit'']"
    using assms(1) by auto
  define w2 where
    "w2 = setup_llm_and_embed_models (print ''--- Starting RAG Query Interface ---'' w)"
  have st: "stored w2 COLLECTION_NAME = Some index"
    using assms(2) by (simp add: w2_def)
  have loop: "chat_loop (as_query_engine P index 3 SYSTEM_PROMPT_RAG True) (Line s # rest)
                = ([Prompt ''You: ''], None)"
    using chat_iteration_exit [OF kw] by simp
  have res: "fst (query_main P (Line s # rest) w) = Inr ()"
    by (simp add: query_main_def Let_def w2_def [symmetric] lvs_ok [OF st]
          create_query_engine_def run_chat_loop_def loop del: chat_loop.simps)
  have outp: "out (snd (query_main P (Line s # rest) w)) = out w2 @
        [Print (''Loading ChromaDB client from '' @ PERSIST_DIR @ ''...''),
         Print (''Getting Chroma collection: '' @ COLLECTION_NAME),
         Print ''Loading index from vector store...'',
         Print ''Index loaded successfully from ChromaDB.'',
         Print ''Creating query engine (with streaming enabled)...'',
         Print ''Query engine created.'',
         Print (nl @ ''Starting RAG chat. Type '' @ quote ''quit'' @ '' or ''
                  @ quote ''exit'' @ '' to end.''),
         Prompt ''You: '',
         Print (nl @ ''Exiting chat.''),
         Print ''--- RAG Query Interface Closed ---'']"
    by (simp add: query_main_def Let_def w2_def [symmetric] lvs_ok [OF st]
          create_query_engine_def run_chat_loop_def loop del: chat_loop.simps)
  have o2: "out w2 = out w @
        [Print ''--- Starting RAG Query Interface ---'',
         Print (''Setting LLM model: '' @ LLM_MODEL_NAME),
         Print (''Setting embedding model: '' @ EMBEDDING_MODEL_NAME),
         Print ''LLM and embedding models set.'']"
    by (simp add: w2_def)
  have calls: "query_calls (out (snd (query_main P (Line s # rest) w))) = query_calls (out w)"
    by (simp add: outp o2 query_calls_append)
  show ?thesis
    using chat_iteration_exit [OF kw, of qe] res calls by (simp add: outp o2)
qed

text \<open>The line \<open>EXIT\<close>, with a question after it that is never read.\<close>

theorem exit_keyword_terminates_witness:
  "lower ''EXIT'' = ''exit''
   \<and> stored ingested_world COLLECTION_NAME = Some [water_entry]
   \<and> exit_code (fst (query_main example_providers [Line ''EXIT'', Line ''fire?'']
        ingested_world)) = 0
   \<and> query_calls (out (snd (query_main example_providers [Line ''EXIT'', Line ''fire?'']
        ingested_world))) = []"
proof -
  have a: "lower ''EXIT'' = ''quit'' \<or> lower ''EXIT'' = ''exit''"
    by code_simp
  have b: "stored ingested_world COLLECTION_NAME = Some [water_entry]"
    by (simp add: stored_def ingested_world_def fresh_persist_def)
  have c: "out ingested_world = []"
    by (simp add: ingested_world_def)
  have d: "lower ''EXIT'' = ''exit''"
    by code_simp
  show ?thesis
    using b d exit_keyword_terminates [OF a b, of failing_engine example_providers
        "[Line ''fire?'']"]
    by (simp add: c)
qed

lemma length_retrieve: "length (retrieve P k index q) = min k (length index)"
  by (simp add: retrieve_def min.commute)

text \<open>
  C8, with the retrieval as the specification describes it. \<open>create_query_engine\<close> fixes
  the fan-out at 3, and every response of the engine carries \<open>min 3 n\<close> source nodes, where
  \<open>n\<close> is the number of entries of the collection.
\<close>

theorem retrieved_node_count:
  assumes "fst (create_query_engine P index w) q = Inr r"
  shows "length (source_nodes r) = min 3 (length index)"
  using assms
  by (auto simp add: create_query_engine_def as_query_engine_def Let_def length_retrieve
        split: sum.splits prod.splits)

text \<open>A collection of four entries: three nodes come back.\<close>

theorem retrieved_node_count_witness:
  "fst (create_query_engine example_providers four_entries ingested_world) ''fire?'' =
     Inr \<lparr>response_gen = Some ([''Rub '', ''sticks.''], None), response = None,
          source_nodes = retrieve example_providers 3 four_entries ''fire?''\<rparr>
   \<and> length (retrieve example_providers 3 four_entries ''fire?'') = 3"
proof -
  have a: "fst (create_query_engine example_providers four_entries ingested_world) ''fire?'' =
     Inr \<lparr>response_gen = Some ([''Rub '', ''sticks.''], None), response = None,
          source_nodes = retrieve example_providers 3 four_entries ''fire?''\<rparr>"
    by (simp add: create_query_engine_def as_query_engine_def Let_def example_providers_def
          canned_llm_def)
  show ?thesis
    using a retrieved_node_count [OF a] by (simp add: four_entries_def)
qed

end
